theory Spec2Isabelle
  imports Complex_Main
begin

section \<open>Buffet Race: the world, its construction and the frame callback\<close>

text \<open>
  The model follows \<^verbatim>\<open>src/components/RaceSimulation.tsx\<close>. JavaScript numbers that
  hold coordinates are modelled as reals (exact arithmetic, no rounding); counts, ids and
  scores are integers. Coordinates that may be NaN have a model of their own, for the
  boundary clamp.
\<close>

subsection \<open>Vectors and quaternions (three.js)\<close>

record vec3 =
  vec_x :: real
  vec_y :: real
  vec_z :: real

record quat =
  quat_x :: real
  quat_y :: real
  quat_z :: real
  quat_w :: real

definition Vector3 :: "real \<Rightarrow> real \<Rightarrow> real \<Rightarrow> vec3" where
  "Vector3 a b c = \<lparr>vec_x = a, vec_y = b, vec_z = c\<rparr>"

text \<open>\<^verbatim>\<open>Quaternion.setFromAxisAngle(axis, angle)\<close> of three.js; the axis is a unit vector.\<close>

definition setFromAxisAngle :: "vec3 \<Rightarrow> real \<Rightarrow> quat" where
  "setFromAxisAngle axis angle =
     (let halfAngle = angle / 2; s = sin halfAngle
      in \<lparr>quat_x = vec_x axis * s, quat_y = vec_y axis * s, quat_z = vec_z axis * s,
          quat_w = cos halfAngle\<rparr>)"

text \<open>\<^verbatim>\<open>Vector3.applyQuaternion(q)\<close> of three.js: the vector turned by the rotation.\<close>

definition applyQuaternion :: "quat \<Rightarrow> vec3 \<Rightarrow> vec3" where
  "applyQuaternion q v =
     (let tx = 2 * (quat_y q * vec_z v - quat_z q * vec_y v);
          ty = 2 * (quat_z q * vec_x v - quat_x q * vec_z v);
          tz = 2 * (quat_x q * vec_y v - quat_y q * vec_x v)
      in \<lparr>vec_x = vec_x v + quat_w q * tx + quat_y q * tz - quat_z q * ty,
          vec_y = vec_y v + quat_w q * ty + quat_z q * tx - quat_x q * tz,
          vec_z = vec_z v + quat_w q * tz + quat_x q * ty - quat_y q * tx\<rparr>)"

subsection \<open>Players and food items\<close>

record player =
  pid :: nat
  position :: vec3
  quaternion :: quat
  velocity :: vec3
  score :: nat
  color :: string
  isJumping :: "bool option"
  verticalVelocity :: "real option"

datatype foodType = Cube | Sphere | Triangle

record foodItem =
  fid :: nat
  fposition :: vec3
  ftype :: "foodType option"
  consumed :: bool
  fcolor :: "string option"

subsection \<open>World construction (the initialising effect of \<^verbatim>\<open>Simulation\<close>)\<close>

definition MAP_SIZE :: real where
  "MAP_SIZE = 8"

definition playerColors :: "string list" where
  "playerColors = [''#FF5733'', ''#33FF57'', ''#3357FF'', ''#F3FF33'',
                   ''#FF33F3'', ''#33FFF3'', ''#F333FF'', ''#FFA533'']"

definition foodTypes :: "foodType list" where
  "foodTypes = [Cube, Sphere, Triangle]"

definition foodColors :: "string list" where
  "foodColors = [''#FF9999'', ''#99FF99'', ''#9999FF'', ''#FFFF99'', ''#FF99FF'', ''#99FFFF'']"

definition newPlayer :: "real \<Rightarrow> int \<Rightarrow> nat \<Rightarrow> player" where
  "newPlayer mapSize playerCount i =
     (let angle = (real i / real_of_int playerCount) * pi * 2;
          radius = mapSize * 0.75
      in \<lparr>pid = i,
          position = Vector3 (cos angle * radius) 0.5 (sin angle * radius),
          quaternion = setFromAxisAngle (Vector3 0 1 0) (- angle),
          velocity = Vector3 0 0 0,
          score = 0,
          color = playerColors ! (i mod length playerColors),
          isJumping = Some False,
          verticalVelocity = Some 0\<rparr>)"

definition newPlayers :: "real \<Rightarrow> int \<Rightarrow> player list" where
  "newPlayers mapSize playerCount = map (newPlayer mapSize playerCount) [0..<nat playerCount]"

text \<open>
  \<^verbatim>\<open>xs[Math.floor(r * xs.length)]\<close>: an index outside the array reads \<^verbatim>\<open>undefined\<close>,
  which is \<open>None\<close> here.
\<close>

definition pick :: "'a list \<Rightarrow> real \<Rightarrow> 'a option" where
  "pick xs r =
     (let k = \<lfloor>r * real (length xs)\<rfloor>
      in if 0 \<le> k \<and> k < int (length xs) then Some (xs ! nat k) else None)"

text \<open>
  The results of the successive calls of \<^verbatim>\<open>Math.random()\<close> are a sequence \<open>rnd\<close>;
  food item \<open>i\<close> draws four of them, in the order x, z, type, colour.
\<close>

definition newFoodItem :: "real \<Rightarrow> (nat \<Rightarrow> real) \<Rightarrow> nat \<Rightarrow> foodItem" where
  "newFoodItem mapSize rnd i =
     (let lo = - mapSize + 0.5;
          hi = mapSize - 0.5
      in \<lparr>fid = i,
          fposition = Vector3 (rnd (4 * i) * (hi - lo) + lo) 0.5 (rnd (4 * i + 1) * (hi - lo) + lo),
          ftype = pick foodTypes (rnd (4 * i + 2)),
          consumed = False,
          fcolor = pick foodColors (rnd (4 * i + 3))\<rparr>)"

definition newFoodItems :: "real \<Rightarrow> int \<Rightarrow> (nat \<Rightarrow> real) \<Rightarrow> foodItem list" where
  "newFoodItems mapSize foodAmount rnd = map (newFoodItem mapSize rnd) [0..<nat foodAmount]"

subsection \<open>The frame callback of \<^verbatim>\<open>Simulation\<close>\<close>

text \<open>
  The elapsed time handed to the callback is a JavaScript number supplied by the frame
  clock; unlike coordinates it is modelled with its non-finite values.
\<close>

datatype number = Finite real | NonFinite

type_synonym updater = "player list \<Rightarrow> foodItem list \<Rightarrow> number \<Rightarrow> player list \<times> foodItem list"

text \<open>What one invocation of the callback asks of React: the setters it calls and with what.\<close>

record frameEffects =
  setPlayers :: "player list option"
  setFoodItems :: "foodItem list option"
  onFoodDepleted :: bool
  setScores :: "nat list option"

text \<open>
  The boundary clamp on coordinates that are numbers. On a coordinate that is NaN,
  \<^verbatim>\<open>Math.max\<close> and \<^verbatim>\<open>Math.min\<close> return NaN: that clamp is \<open>clampPlayerJS\<close> below.
\<close>

definition clampPlayer :: "real \<Rightarrow> player \<Rightarrow> player" where
  "clampPlayer mapSize p =
     p\<lparr>position := (position p)
         \<lparr>vec_x := max (- mapSize) (min mapSize (vec_x (position p))),
          vec_z := max (- mapSize) (min mapSize (vec_z (position p)))\<rparr>\<rparr>"

text \<open>
  \<open>updateBuffetPlayers\<close> is imported from \<^verbatim>\<open>./buffetplayers\<close>; the callback is
  parametrised by it.
\<close>

definition useFrame ::
  "updater \<Rightarrow> real \<Rightarrow> bool \<Rightarrow> bool \<Rightarrow> player list \<Rightarrow> foodItem list \<Rightarrow> number \<Rightarrow> frameEffects" where
  "useFrame updateBuffetPlayers mapSize isSimulationRunning isGameOver players foodItems delta =
     (if players = [] \<or> foodItems = [] then
        \<lparr>setPlayers = None, setFoodItems = None, onFoodDepleted = False, setScores = None\<rparr>
      else if isSimulationRunning \<and> \<not> isGameOver then
        (let result = updateBuffetPlayers players foodItems delta;
             updatedPlayers = map (clampPlayer mapSize) (fst result);
             updatedFoodItems = snd result
         in \<lparr>setPlayers = Some updatedPlayers,
             setFoodItems = Some updatedFoodItems,
             onFoodDepleted = list_all consumed updatedFoodItems,
             setScores = Some (map score updatedPlayers)\<rparr>)
      else
        \<lparr>setPlayers = None, setFoodItems = None, onFoodDepleted = False,
         setScores = Some (map score players)\<rparr>)"

subsection \<open>The frame callback on coordinates that may be NaN\<close>

text \<open>
  A coordinate as JavaScript holds it: a number or NaN (the infinities are left out; the
  clamp sends them to a bound as it does any large number). \<^verbatim>\<open>Math.min\<close> and
  \<^verbatim>\<open>Math.max\<close> return NaN as soon as one argument is NaN.
\<close>

datatype jsnum = Num real | NaN

fun Math_min :: "jsnum \<Rightarrow> jsnum \<Rightarrow> jsnum" where
  "Math_min (Num a) (Num b) = Num (min a b)"
| "Math_min NaN b = NaN"
| "Math_min a NaN = NaN"

fun Math_max :: "jsnum \<Rightarrow> jsnum \<Rightarrow> jsnum" where
  "Math_max (Num a) (Num b) = Num (max a b)"
| "Math_max NaN b = NaN"
| "Math_max a NaN = NaN"

text \<open>
  A player whose position may hold NaN. The clamp reads and writes the position only, so
  the other fields are those of \<open>player\<close>.
\<close>

record jsvec3 =
  js_x :: jsnum
  js_y :: jsnum
  js_z :: jsnum

record jsplayer =
  jpid :: nat
  jposition :: jsvec3
  jquaternion :: quat
  jvelocity :: vec3
  jscore :: nat
  jcolor :: string
  jisJumping :: "bool option"
  jverticalVelocity :: "real option"

type_synonym jsupdater =
  "jsplayer list \<Rightarrow> foodItem list \<Rightarrow> number \<Rightarrow> jsplayer list \<times> foodItem list"

record jsFrameEffects =
  js_setPlayers :: "jsplayer list option"
  js_setFoodItems :: "foodItem list option"
  js_onFoodDepleted :: bool
  js_setScores :: "nat list option"

definition clampPlayerJS :: "real \<Rightarrow> jsplayer \<Rightarrow> jsplayer" where
  "clampPlayerJS mapSize p =
     p\<lparr>jposition := (jposition p)
         \<lparr>js_x := Math_max (Num (- mapSize)) (Math_min (Num mapSize) (js_x (jposition p))),
          js_z := Math_max (Num (- mapSize)) (Math_min (Num mapSize) (js_z (jposition p)))\<rparr>\<rparr>"

text \<open>The callback as above, on these players.\<close>

definition useFrameJS ::
  "jsupdater \<Rightarrow> real \<Rightarrow> bool \<Rightarrow> bool \<Rightarrow> jsplayer list \<Rightarrow> foodItem list \<Rightarrow> number
     \<Rightarrow> jsFrameEffects" where
  "useFrameJS updateBuffetPlayers mapSize isSimulationRunning isGameOver players foodItems delta =
     (if players = [] \<or> foodItems = [] then
        \<lparr>js_setPlayers = None, js_setFoodItems = None, js_onFoodDepleted = False,
         js_setScores = None\<rparr>
      else if isSimulationRunning \<and> \<not> isGameOver then
        (let result = updateBuffetPlayers players foodItems delta;
             updatedPlayers = map (clampPlayerJS mapSize) (fst result);
             updatedFoodItems = snd result
         in \<lparr>js_setPlayers = Some updatedPlayers,
             js_setFoodItems = Some updatedFoodItems,
             js_onFoodDepleted = list_all consumed updatedFoodItems,
             js_setScores = Some (map jscore updatedPlayers)\<rparr>)
      else
        \<lparr>js_setPlayers = None, js_setFoodItems = None, js_onFoodDepleted = False,
         js_setScores = Some (map jscore players)\<rparr>)"

text \<open>A player of numbers among these players, and the setter calls likewise.\<close>

definition toJS :: "player \<Rightarrow> jsplayer" where
  "toJS p =
     \<lparr>jpid = pid p,
      jposition = \<lparr>js_x = Num (vec_x (position p)), js_y = Num (vec_y (position p)),
                   js_z = Num (vec_z (position p))\<rparr>,
      jquaternion = quaternion p, jvelocity = velocity p, jscore = score p, jcolor = color p,
      jisJumping = isJumping p, jverticalVelocity = verticalVelocity p\<rparr>"

definition toJSEffects :: "frameEffects \<Rightarrow> jsFrameEffects" where
  "toJSEffects e =
     \<lparr>js_setPlayers = map_option (map toJS) (setPlayers e), js_setFoodItems = setFoodItems e,
      js_onFoodDepleted = onFoodDepleted e, js_setScores = setScores e\<rparr>"

subsection \<open>The application state of \<^verbatim>\<open>RaceSimulation\<close> and its handlers\<close>

text \<open>
  The state of a mounted \<^verbatim>\<open>Simulation\<close> component: its two state variables and the
  dependency values \<^verbatim>\<open>[playerCount, foodAmount, mapSize]\<close> its initialising effect last
  ran with.
\<close>

record simulation =
  players :: "player list"
  foodItems :: "foodItem list"
  deps :: "int \<times> int \<times> real"

record app =
  playerCount :: int
  foodAmount :: int
  scores :: "nat list"
  isSimulationRunning :: bool
  timeLeft :: int
  isGameOver :: bool
  simulation :: "simulation option"

definition gameDuration :: int where
  "gameDuration = 60"

definition initialApp :: app where
  "initialApp = \<lparr>playerCount = 4, foodAmount = 100, scores = [], isSimulationRunning = False,
                  timeLeft = 60, isGameOver = False, simulation = None\<rparr>"

text \<open>
  \<^verbatim>\<open>parseInt(e.target.value) || 1\<close>: \<^verbatim>\<open>parseInt\<close> yields an integer or NaN (\<open>None\<close>);
  NaN and 0 are falsy.
\<close>

definition orOne :: "int option \<Rightarrow> int" where
  "orOne v = (case v of None \<Rightarrow> 1 | Some n \<Rightarrow> if n = 0 then 1 else n)"

definition onChangePlayerCount :: "int option \<Rightarrow> app \<Rightarrow> app" where
  "onChangePlayerCount v a = a\<lparr>playerCount := max 1 (min 8 (orOne v))\<rparr>"

definition onChangeFoodAmount :: "int option \<Rightarrow> app \<Rightarrow> app" where
  "onChangeFoodAmount v a = a\<lparr>foodAmount := max 1 (min 500 (orOne v))\<rparr>"

definition startSimulation :: "app \<Rightarrow> app" where
  "startSimulation a =
     a\<lparr>scores := replicate (nat (playerCount a)) 0, timeLeft := gameDuration,
       isGameOver := False, isSimulationRunning := True\<rparr>"

definition handlePlayAgain :: "app \<Rightarrow> app" where
  "handlePlayAgain a = startSimulation a"

definition handleFoodDepleted :: "app \<Rightarrow> app" where
  "handleFoodDepleted a = a\<lparr>isGameOver := True, isSimulationRunning := False\<rparr>"

text \<open>One firing of the one-second interval of the countdown.\<close>

definition timerTick :: "app \<Rightarrow> app" where
  "timerTick a =
     (if timeLeft a \<le> 1 then a\<lparr>isGameOver := True, isSimulationRunning := False, timeLeft := 0\<rparr>
      else a\<lparr>timeLeft := timeLeft a - 1\<rparr>)"

text \<open>
  A React commit. \<^verbatim>\<open>Simulation\<close> is rendered while
  \<^verbatim>\<open>isSimulationRunning || isGameOver\<close>. Its initialising effect runs when the component
  mounts and when one of its dependencies differs from the previous render; otherwise the
  component keeps its state. Unmounting discards the state.
\<close>

definition initialize :: "(nat \<Rightarrow> real) \<Rightarrow> int \<Rightarrow> int \<Rightarrow> real \<Rightarrow> simulation" where
  "initialize rnd pc fa mapSize =
     \<lparr>players = newPlayers mapSize pc, foodItems = newFoodItems mapSize fa rnd,
      deps = (pc, fa, mapSize)\<rparr>"

definition renderSimulation :: "(nat \<Rightarrow> real) \<Rightarrow> app \<Rightarrow> app" where
  "renderSimulation rnd a =
     (if isSimulationRunning a \<or> isGameOver a then
        (case simulation a of
           None \<Rightarrow> a\<lparr>simulation := Some (initialize rnd (playerCount a) (foodAmount a) MAP_SIZE)\<rparr>
         | Some s \<Rightarrow>
             if deps s = (playerCount a, foodAmount a, MAP_SIZE) then a
             else a\<lparr>simulation := Some (initialize rnd (playerCount a) (foodAmount a) MAP_SIZE)\<rparr>)
      else a\<lparr>simulation := None\<rparr>)"

text \<open>One frame: the callback runs on the mounted component and its setter calls are applied.\<close>

definition orKeep :: "'a option \<Rightarrow> 'a \<Rightarrow> 'a" where
  "orKeep requested current = (case requested of None \<Rightarrow> current | Some v \<Rightarrow> v)"

definition frame :: "updater \<Rightarrow> app \<Rightarrow> number \<Rightarrow> app" where
  "frame updateBuffetPlayers a delta =
     (case simulation a of
        None \<Rightarrow> a
      | Some s \<Rightarrow>
          (let e = useFrame updateBuffetPlayers MAP_SIZE (isSimulationRunning a) (isGameOver a)
                     (players s) (foodItems s) delta;
               s' = s\<lparr>players := orKeep (setPlayers e) (players s),
                      foodItems := orKeep (setFoodItems e) (foodItems s)\<rparr>;
               a' = (if onFoodDepleted e then handleFoodDepleted a else a)
           in a'\<lparr>scores := orKeep (setScores e) (scores a), simulation := Some s'\<rparr>))"

text \<open>
  What can happen to the application: an input of the parameters bar (shown before a race
  only), the Start button (in that bar), the Play Again button (on the game-over overlay),
  a firing of the countdown (active while the race runs), a frame. Each is followed by a
  commit, which comes with the random numbers its effect would draw.
\<close>

datatype event =
    ChangePlayerCount "int option"
  | ChangeFoodAmount "int option"
  | Start
  | PlayAgain
  | TimerTick
  | Frame number

definition barVisible :: "app \<Rightarrow> bool" where
  "barVisible a = (\<not> isSimulationRunning a \<and> \<not> isGameOver a)"

fun handle :: "updater \<Rightarrow> event \<Rightarrow> app \<Rightarrow> app" where
  "handle u (ChangePlayerCount v) a = (if barVisible a then onChangePlayerCount v a else a)"
| "handle u (ChangeFoodAmount v) a = (if barVisible a then onChangeFoodAmount v a else a)"
| "handle u Start a = (if barVisible a then startSimulation a else a)"
| "handle u PlayAgain a = (if isGameOver a then handlePlayAgain a else a)"
| "handle u TimerTick a = (if isSimulationRunning a \<and> \<not> isGameOver a then timerTick a else a)"
| "handle u (Frame delta) a = frame u a delta"

definition step :: "updater \<Rightarrow> app \<Rightarrow> event \<times> (nat \<Rightarrow> real) \<Rightarrow> app" where
  "step u a er = renderSimulation (snd er) (handle u (fst er) a)"

definition run :: "updater \<Rightarrow> app \<Rightarrow> (event \<times> (nat \<Rightarrow> real)) list \<Rightarrow> app" where
  "run u a evs = foldl (step u) a evs"

text \<open>A run of frames on one world, one per elapsed time.\<close>

definition frames :: "updater \<Rightarrow> app \<Rightarrow> number list \<Rightarrow> app" where
  "frames u a ds = foldl (frame u) a ds"

subsection \<open>The update step\<close>

text \<open>
  The module \<^verbatim>\<open>./buffetplayers\<close> is not among the sources; the constants the
  specification leaves open (the shared speed, the pickup radius, how a movement direction
  becomes an orientation) are parameters.
\<close>

record tuning =
  speed :: real
  pickupRadius :: real
  heading :: "vec3 \<Rightarrow> quat"

definition gravity :: real where
  "gravity = - 18"

definition groundHeight :: real where
  "groundHeight = 0.5"

definition hdist :: "vec3 \<Rightarrow> vec3 \<Rightarrow> real" where
  "hdist a b = sqrt ((vec_x b - vec_x a)\<^sup>2 + (vec_z b - vec_z a)\<^sup>2)"

definition closer :: "vec3 \<Rightarrow> foodItem \<Rightarrow> foodItem \<Rightarrow> bool" where
  "closer p f g =
     (hdist p (fposition f) < hdist p (fposition g)
      \<or> (hdist p (fposition f) = hdist p (fposition g) \<and> fid f < fid g))"

text \<open>
  Modelled from the spec: targeting of \<open>updateBuffetPlayers\<close> (section 4.2, step 1). The
  index of the unconsumed food item at least horizontal distance, the lowest id winning a
  tie; \<open>None\<close> when no food is left.
\<close>

fun selectTarget :: "vec3 \<Rightarrow> foodItem list \<Rightarrow> nat option" where
  "selectTarget p [] = None"
| "selectTarget p (f # fs) =
     (case selectTarget p fs of
        None \<Rightarrow> if consumed f then None else Some 0
      | Some j \<Rightarrow> if \<not> consumed f \<and> closer p f (fs ! j) then Some 0 else Some (Suc j))"

text \<open>The horizontal unit vector from \<open>a\<close> towards \<open>b\<close>; the zero vector when they coincide.\<close>

definition towards :: "vec3 \<Rightarrow> vec3 \<Rightarrow> vec3" where
  "towards a b =
     (let d = hdist a b
      in if d = 0 then Vector3 0 0 0
         else Vector3 ((vec_x b - vec_x a) / d) 0 ((vec_z b - vec_z a) / d))"

text \<open>
  Modelled from the spec: the jump arc of \<open>updateBuffetPlayers\<close> (section 4.2, step 3),
  one explicit integration step under \<open>gravity\<close>, the jump ending at ground height.
\<close>

definition jumpArc :: "real \<Rightarrow> player \<Rightarrow> player" where
  "jumpArc d p =
     (if isJumping p = Some True then
        (let v = (case verticalVelocity p of None \<Rightarrow> 0 | Some w \<Rightarrow> w) + gravity * d;
             h = vec_y (position p) + v * d
         in if h \<le> groundHeight then
              p\<lparr>position := (position p)\<lparr>vec_y := groundHeight\<rparr>,
                isJumping := Some False, verticalVelocity := Some 0\<rparr>
            else p\<lparr>position := (position p)\<lparr>vec_y := h\<rparr>, verticalVelocity := Some v\<rparr>)
      else p)"

text \<open>
  Modelled from the spec: one player's tick of \<open>updateBuffetPlayers\<close> (section 4.2, steps
  1 to 4): target, move by \<open>speed * delta\<close> along the unit vector, face that way, jump arc,
  and within the pickup radius of the target mark it consumed and score one.
\<close>

definition stepPlayer :: "tuning \<Rightarrow> real \<Rightarrow> player \<Rightarrow> foodItem list \<Rightarrow> player \<times> foodItem list" where
  "stepPlayer c d p fs =
     (case selectTarget (position p) fs of
        None \<Rightarrow> (p, fs)
      | Some i \<Rightarrow>
          (let t = fs ! i;
               dir = towards (position p) (fposition t);
               moved = jumpArc d
                 (p\<lparr>position := (position p)
                       \<lparr>vec_x := vec_x (position p) + vec_x dir * (speed c * d),
                        vec_z := vec_z (position p) + vec_z dir * (speed c * d)\<rparr>,
                    velocity := Vector3 (vec_x dir * speed c) 0 (vec_z dir * speed c),
                    quaternion := heading c dir\<rparr>)
           in if hdist (position moved) (fposition t) < pickupRadius c
              then (moved\<lparr>score := score moved + 1\<rparr>, fs[i := t\<lparr>consumed := True\<rparr>])
              else (moved, fs)))"

text \<open>
  Modelled from the spec: the pass of \<open>updateBuffetPlayers\<close> over the players, in their
  order (ascending id), each seeing the food as the players before it left it
  (sections 4.2 and 5).
\<close>

fun stepPlayers :: "tuning \<Rightarrow> real \<Rightarrow> player list \<Rightarrow> foodItem list \<Rightarrow> player list \<times> foodItem list" where
  "stepPlayers c d [] fs = ([], fs)"
| "stepPlayers c d (p # ps) fs =
     (let r = stepPlayer c d p fs; q = stepPlayers c d ps (snd r)
      in (fst r # fst q, snd q))"

text \<open>
  Modelled from the spec: \<open>updateBuffetPlayers\<close> of \<^verbatim>\<open>./buffetplayers\<close>, which is not
  among the sources. A tick whose elapsed time is zero, negative or not finite is a
  degenerate tick and leaves the world as it is (section 7); otherwise every player is
  advanced (section 4.2).
\<close>

definition updateBuffetPlayers :: "tuning \<Rightarrow> updater" where
  "updateBuffetPlayers c ps fs delta =
     (case delta of
        NonFinite \<Rightarrow> (ps, fs)
      | Finite d \<Rightarrow> if d \<le> 0 then (ps, fs) else stepPlayers c d ps fs)"

text \<open>
  \<^verbatim>\<open>Math.random\<close> is ambient: any code that runs during a frame can call it. An update
  step in its environment takes the numbers \<^verbatim>\<open>Math.random\<close> would return during the
  call. The frame callback calls \<^verbatim>\<open>Math.random\<close> nowhere: it hands the environment to
  the update step and is otherwise \<open>frame\<close>.
\<close>

definition frameIn :: "((nat \<Rightarrow> real) \<Rightarrow> updater) \<Rightarrow> app \<Rightarrow> number \<times> (nat \<Rightarrow> real) \<Rightarrow> app" where
  "frameIn updateIn a tick = frame (updateIn (snd tick)) a (fst tick)"

definition framesIn ::
  "((nat \<Rightarrow> real) \<Rightarrow> updater) \<Rightarrow> app \<Rightarrow> (number \<times> (nat \<Rightarrow> real)) list \<Rightarrow> app" where
  "framesIn updateIn a ticks = foldl (frameIn updateIn) a ticks"


subsection \<open>A sample race\<close>

text \<open>
  One player, one food item. The commit that follows Start puts the player at
  \<open>(6, 0.5, 0)\<close> and, with the random numbers below, the food at \<open>(5.7, 0.5, 0)\<close>; the
  first frame of a sixtieth of a second brings the player within the pickup radius.
\<close>

definition sampleTuning :: tuning where
  "sampleTuning =
     \<lparr>speed = 3, pickupRadius = 1 / 2, heading = (\<lambda>d. setFromAxisAngle (Vector3 0 1 0) 0)\<rparr>"

definition sampleUpdater :: updater where
  "sampleUpdater = updateBuffetPlayers sampleTuning"

definition sampleRnd :: "nat \<Rightarrow> real" where
  "sampleRnd k = (if k = 0 then 22 / 25 else 1 / 2)"

definition startEvents :: "(event \<times> (nat \<Rightarrow> real)) list" where
  "startEvents =
     [(ChangePlayerCount (Some 1), sampleRnd), (ChangeFoodAmount (Some 1), sampleRnd),
      (Start, sampleRnd)]"

definition raceStarted :: app where
  "raceStarted = run sampleUpdater initialApp startEvents"

definition raceOver :: app where
  "raceOver = run sampleUpdater initialApp (startEvents @ [(Frame (Finite (1 / 60)), sampleRnd)])"

definition spawnedPlayer :: player where
  "spawnedPlayer =
     \<lparr>pid = 0, position = Vector3 6 (1 / 2) 0,
      quaternion = \<lparr>quat_x = 0, quat_y = 0, quat_z = 0, quat_w = 1\<rparr>,
      velocity = Vector3 0 0 0, score = 0, color = ''#FF5733'',
      isJumping = Some False, verticalVelocity = Some 0\<rparr>"

definition spawnedFood :: foodItem where
  "spawnedFood =
     \<lparr>fid = 0, fposition = Vector3 (57 / 10) (1 / 2) 0, ftype = Some Sphere,
      consumed = False, fcolor = Some ''#FFFF99''\<rparr>"

definition fedPlayer :: player where
  "fedPlayer =
     spawnedPlayer\<lparr>position := Vector3 (119 / 20) (1 / 2) 0, velocity := Vector3 (- 3) 0 0,
                   score := 1\<rparr>"

definition eatenFood :: foodItem where
  "eatenFood = spawnedFood\<lparr>consumed := True\<rparr>"

text \<open>A race on a world without food: the food amount set to 0 before the start.\<close>

definition noFoodApp :: app where
  "noFoodApp = renderSimulation sampleRnd (startSimulation (initialApp\<lparr>foodAmount := 0\<rparr>))"



definition driftStep :: "(nat \<Rightarrow> real) \<Rightarrow> updater" where
  "driftStep rnd ps fs delta =
     (map (\<lambda>p. p\<lparr>position := (position p)\<lparr>vec_x := vec_x (position p) - rnd 0\<rparr>\<rparr>) ps, fs)"

subsection \<open>Predicates of the properties\<close>

text \<open>A player within the arena: both horizontal coordinates in \<open>[-mapSize, mapSize]\<close>.\<close>

definition inBounds :: "real \<Rightarrow> player \<Rightarrow> bool" where
  "inBounds mapSize p =
     (- mapSize \<le> vec_x (position p) \<and> vec_x (position p) \<le> mapSize
      \<and> - mapSize \<le> vec_z (position p) \<and> vec_z (position p) \<le> mapSize)"


definition worldInBounds :: "app \<Rightarrow> bool" where
  "worldInBounds a =
     (case simulation a of None \<Rightarrow> True | Some s \<Rightarrow> list_all (inBounds MAP_SIZE) (players s))"

text \<open>
  The direction an object of three.js faces is its local \<open>+Z\<close> axis, the axis that
  \<^verbatim>\<open>Object3D.lookAt\<close> points at its target; \<open>inward\<close> is the horizontal unit vector
  from a player to the centre of the arena.
\<close>

definition facing :: "player \<Rightarrow> vec3" where
  "facing p = applyQuaternion (quaternion p) (Vector3 0 0 1)"

definition inward :: "player \<Rightarrow> vec3" where
  "inward p = towards (position p) (Vector3 0 0 0)"

text \<open>The sample race, played to its end, and Play Again pressed on the overlay.\<close>

definition playedAgain :: app where
  "playedAgain = run sampleUpdater initialApp
     (startEvents @ [(Frame (Finite (1 / 60)), sampleRnd), (PlayAgain, sampleRnd)])"

text \<open>
  Food and players across an update: each food item keeps its id and, once consumed,
  stays consumed; each player keeps its id and its score does not fall; and the scores
  gained in total equal the number of food items newly consumed.
\<close>

definition totalScore :: "player list \<Rightarrow> nat" where
  "totalScore ps = sum_list (map score ps)"

definition consumedCount :: "foodItem list \<Rightarrow> nat" where
  "consumedCount fs = length (filter consumed fs)"

definition foodKept :: "foodItem list \<Rightarrow> foodItem list \<Rightarrow> bool" where
  "foodKept fs gs = list_all2 (\<lambda>f g. fid g = fid f \<and> (consumed f \<longrightarrow> consumed g)) fs gs"

definition scoresKept :: "player list \<Rightarrow> player list \<Rightarrow> bool" where
  "scoresKept ps qs = list_all2 (\<lambda>p q. pid q = pid p \<and> score p \<le> score q) ps qs"

definition credited :: "player list \<Rightarrow> foodItem list \<Rightarrow> player list \<Rightarrow> foodItem list \<Rightarrow> bool" where
  "credited ps fs qs gs =
     (foodKept fs gs \<and> scoresKept ps qs
      \<and> totalScore qs + consumedCount fs = totalScore ps + consumedCount gs)"

text \<open>A degenerate tick: an elapsed time that is zero, negative or not finite.\<close>

definition degenerate :: "number \<Rightarrow> bool" where
  "degenerate delta = (case delta of NonFinite \<Rightarrow> True | Finite d \<Rightarrow> d \<le> 0)"


section \<open>Properties\<close>

subsection \<open>The sample race, evaluated\<close>

lemma hdist_same_z: "vec_z a = vec_z b \<Longrightarrow> hdist a b = \<bar>vec_x b - vec_x a\<bar>"
  by (simp add: hdist_def)

lemma newPlayers_sample: "newPlayers MAP_SIZE 1 = [spawnedPlayer]"
  by (simp add: newPlayers_def newPlayer_def MAP_SIZE_def setFromAxisAngle_def Vector3_def
      playerColors_def spawnedPlayer_def)

lemma newFoodItems_sample: "newFoodItems MAP_SIZE 1 sampleRnd = [spawnedFood]"
  by (simp add: newFoodItems_def newFoodItem_def MAP_SIZE_def sampleRnd_def Vector3_def
      pick_def foodTypes_def foodColors_def spawnedFood_def)

lemma raceStarted_eq:
  "raceStarted =
     \<lparr>playerCount = 1, foodAmount = 1, scores = [0], isSimulationRunning = True,
      timeLeft = 60, isGameOver = False,
      simulation = Some \<lparr>players = [spawnedPlayer], foodItems = [spawnedFood],
                         deps = (1, 1, MAP_SIZE)\<rparr>\<rparr>"
  by (simp add: raceStarted_def startEvents_def run_def step_def barVisible_def initialApp_def
      onChangePlayerCount_def onChangeFoodAmount_def orOne_def startSimulation_def
      renderSimulation_def gameDuration_def initialize_def newPlayers_sample newFoodItems_sample)

lemma sampleUpdater_first_tick:
  "sampleUpdater [spawnedPlayer] [spawnedFood] (Finite (1 / 60)) = ([fedPlayer], [eatenFood])"
  by (simp add: sampleUpdater_def updateBuffetPlayers_def stepPlayer_def Let_def towards_def
      hdist_same_z Vector3_def jumpArc_def sampleTuning_def setFromAxisAngle_def
      spawnedPlayer_def spawnedFood_def fedPlayer_def eatenFood_def)

lemma clampPlayer_fedPlayer: "clampPlayer MAP_SIZE fedPlayer = fedPlayer"
  by (simp add: clampPlayer_def fedPlayer_def spawnedPlayer_def MAP_SIZE_def Vector3_def)

lemma frame_raceStarted:
  "frame sampleUpdater raceStarted (Finite (1 / 60)) =
     \<lparr>playerCount = 1, foodAmount = 1, scores = [1], isSimulationRunning = False,
      timeLeft = 60, isGameOver = True,
      simulation = Some \<lparr>players = [fedPlayer], foodItems = [eatenFood],
                         deps = (1, 1, MAP_SIZE)\<rparr>\<rparr>"
  by (simp add: raceStarted_eq frame_def useFrame_def sampleUpdater_first_tick orKeep_def
      handleFoodDepleted_def clampPlayer_fedPlayer)
    (simp add: eatenFood_def fedPlayer_def)

lemma raceOver_eq:
  "raceOver =
     \<lparr>playerCount = 1, foodAmount = 1, scores = [1], isSimulationRunning = False,
      timeLeft = 60, isGameOver = True,
      simulation = Some \<lparr>players = [fedPlayer], foodItems = [eatenFood],
                         deps = (1, 1, MAP_SIZE)\<rparr>\<rparr>"
proof -
  have "raceOver = step sampleUpdater raceStarted (Frame (Finite (1 / 60)), sampleRnd)"
    by (simp add: raceOver_def raceStarted_def run_def)
  then show ?thesis
    by (simp add: step_def frame_raceStarted renderSimulation_def)
qed

lemma noFoodApp_eq:
  "noFoodApp =
     \<lparr>playerCount = 4, foodAmount = 0, scores = [0, 0, 0, 0], isSimulationRunning = True,
      timeLeft = 60, isGameOver = False,
      simulation = Some \<lparr>players = newPlayers MAP_SIZE 4, foodItems = [],
                         deps = (4, 0, MAP_SIZE)\<rparr>\<rparr>"
  by (simp add: noFoodApp_def renderSimulation_def startSimulation_def initialApp_def
      initialize_def newFoodItems_def gameDuration_def numeral_eq_Suc)

subsection \<open>The all-food-consumed signal\<close>

text \<open>
  C1, as the claim states it, fails: on a running race whose world has no food, the frame
  callback does not report that all food is consumed; it returns at once and the
  application is as it was.
\<close>

theorem no_food_no_signal:
  "map_option foodItems (simulation noFoodApp) = Some []
   \<and> isSimulationRunning noFoodApp \<and> \<not> isGameOver noFoodApp
   \<and> \<not> onFoodDepleted (useFrame sampleUpdater MAP_SIZE True False (newPlayers MAP_SIZE 4) []
          (Finite (1 / 60)))
   \<and> \<not> isGameOver (frame sampleUpdater noFoodApp (Finite (1 / 60)))
   \<and> frame sampleUpdater noFoodApp (Finite (1 / 60)) = noFoodApp"
  by (simp add: noFoodApp_eq frame_def useFrame_def orKeep_def)

text \<open>
  C1, amended: the callback reports that all food is consumed exactly when there are
  players and food, the race is running and not over, and every food item is consumed
  after the update; on a world without food it calls no setter and reports nothing.
\<close>

theorem useFrame_signal:
  "onFoodDepleted (useFrame u ms r g ps fs d)
     = (ps \<noteq> [] \<and> fs \<noteq> [] \<and> r \<and> \<not> g \<and> list_all consumed (snd (u ps fs d)))
   \<and> useFrame u ms r g ps [] d
     = \<lparr>setPlayers = None, setFoodItems = None, onFoodDepleted = False, setScores = None\<rparr>"
  by (simp add: useFrame_def Let_def)

subsection \<open>Frames outside a running race\<close>

text \<open>
  C10: when the race is not running or is over, a frame leaves the application as it is,
  players and food included, except that the score overlay is set to the players' current
  scores (and not even that while the players or the food are empty, or no simulation is
  mounted).
\<close>

theorem frame_idle:
  "\<not> isSimulationRunning a \<or> isGameOver a \<Longrightarrow>
   frame u a delta =
     a\<lparr>scores := (case simulation a of
                    None \<Rightarrow> scores a
                  | Some s \<Rightarrow> if players s = [] \<or> foodItems s = [] then scores a
                             else map score (players s))\<rparr>"
  by (auto simp add: frame_def useFrame_def orKeep_def Let_def split: option.splits)

theorem frame_idle_witness:
  "isGameOver raceOver
   \<and> frame sampleUpdater raceOver (Finite (1 / 60)) = raceOver
   \<and> map_option players (simulation raceOver) = Some [fedPlayer]
   \<and> scores raceOver = [1]"
  using frame_idle [of raceOver sampleUpdater "Finite (1 / 60)"]
  by (simp add: raceOver_eq fedPlayer_def)

subsection \<open>Restarting a race\<close>

lemma play_again_keeps_simulation:
  assumes "isGameOver a" and "simulation a = Some s"
    and "deps s = (playerCount a, foodAmount a, MAP_SIZE)"
  shows "simulation (step u a (PlayAgain, rnd)) = Some s
    \<and> isSimulationRunning (step u a (PlayAgain, rnd))
    \<and> \<not> isGameOver (step u a (PlayAgain, rnd))"
  using assms
  by (simp add: step_def handlePlayAgain_def startSimulation_def renderSimulation_def)

lemma playedAgain_eq:
  "playedAgain =
     \<lparr>playerCount = 1, foodAmount = 1, scores = [0], isSimulationRunning = True,
      timeLeft = 60, isGameOver = False,
      simulation = Some \<lparr>players = [fedPlayer], foodItems = [eatenFood],
                         deps = (1, 1, MAP_SIZE)\<rparr>\<rparr>"
proof -
  have "playedAgain = step sampleUpdater raceOver (PlayAgain, sampleRnd)"
    by (simp add: playedAgain_def raceOver_def run_def)
  then show ?thesis
    by (simp add: raceOver_eq step_def handlePlayAgain_def startSimulation_def
        renderSimulation_def gameDuration_def)
qed

lemma sampleUpdater_no_food_left:
  "sampleUpdater [fedPlayer] [eatenFood] d = ([fedPlayer], [eatenFood])"
  by (cases d) (simp_all add: sampleUpdater_def updateBuffetPlayers_def stepPlayer_def eatenFood_def)

text \<open>
  C2 asks for a fresh world at every restart. Evaluated on the sample race: after the
  race is over, Play Again sets the race running with the same mounted simulation, so the
  player keeps score 1 and its position, and the food item stays consumed, where a fresh
  world has score 0, the spawn position and unconsumed food; the next frame then ends the
  race at once.
\<close>

theorem play_again_keeps_world:
  "isGameOver raceOver
   \<and> isSimulationRunning playedAgain \<and> \<not> isGameOver playedAgain
   \<and> playerCount playedAgain = playerCount raceOver
   \<and> foodAmount playedAgain = foodAmount raceOver
   \<and> simulation playedAgain = simulation raceOver
   \<and> map_option (\<lambda>s. map score (players s)) (simulation playedAgain) = Some [1]
   \<and> map_option (\<lambda>s. map consumed (foodItems s)) (simulation playedAgain) = Some [True]
   \<and> map_option (\<lambda>s. map position (players s)) (simulation playedAgain)
        = Some [Vector3 (119 / 20) (1 / 2) 0]
   \<and> map score (players (initialize sampleRnd 1 1 MAP_SIZE)) = [0]
   \<and> map position (players (initialize sampleRnd 1 1 MAP_SIZE)) = [Vector3 6 (1 / 2) 0]
   \<and> map consumed (foodItems (initialize sampleRnd 1 1 MAP_SIZE)) = [False]
   \<and> isGameOver (frame sampleUpdater playedAgain (Finite (1 / 60)))
   \<and> scores (frame sampleUpdater playedAgain (Finite (1 / 60))) = [1]"
  apply (simp add: raceOver_eq playedAgain_eq initialize_def newPlayers_sample newFoodItems_sample)
  apply (simp add: frame_def useFrame_def sampleUpdater_no_food_left orKeep_def
      handleFoodDepleted_def clampPlayer_fedPlayer)
  apply (simp add: fedPlayer_def eatenFood_def spawnedPlayer_def spawnedFood_def)
  done

subsection \<open>Configuration\<close>

text \<open>
  C3, as the claim states it, fails: a player count of 9 and food counts of 0 and 501 are
  accepted and clamped to 8, 1 and 500, the race then starts with 8 players, and the
  initialising effect builds a world for a map size of 0.
\<close>

theorem out_of_range_accepted:
  "playerCount (onChangePlayerCount (Some 9) initialApp) = 8
   \<and> foodAmount (onChangeFoodAmount (Some 0) initialApp) = 1
   \<and> foodAmount (onChangeFoodAmount (Some 501) initialApp) = 500
   \<and> map_option (\<lambda>s. length (players s))
        (simulation (run sampleUpdater initialApp
           [(ChangePlayerCount (Some 9), sampleRnd), (Start, sampleRnd)])) = Some 8
   \<and> length (players (initialize sampleRnd 4 100 0)) = 4"
  by (simp add: onChangePlayerCount_def onChangeFoodAmount_def orOne_def initialApp_def
      run_def step_def barVisible_def startSimulation_def renderSimulation_def initialize_def
      newPlayers_def newFoodItems_def)

text \<open>
  C3, amended: the inputs clamp silently and never fail. An unparsable value and every
  value below 1 give 1, a value above the upper bound (8 players, 500 food items) gives
  the bound, a value in range is kept; and the initialising effect builds a world of the
  sizes it is handed for every player count, food count and map size.
\<close>

theorem clamp_counts:
  "playerCount (onChangePlayerCount v a)
     = (case v of None \<Rightarrow> 1 | Some n \<Rightarrow> if n < 1 then 1 else if 8 < n then 8 else n)
   \<and> foodAmount (onChangeFoodAmount v a)
     = (case v of None \<Rightarrow> 1 | Some n \<Rightarrow> if n < 1 then 1 else if 500 < n then 500 else n)
   \<and> 1 \<le> playerCount (onChangePlayerCount v a) \<and> playerCount (onChangePlayerCount v a) \<le> 8
   \<and> 1 \<le> foodAmount (onChangeFoodAmount v a) \<and> foodAmount (onChangeFoodAmount v a) \<le> 500
   \<and> length (players (initialize rnd pc fa ms)) = nat pc
   \<and> length (foodItems (initialize rnd pc fa ms)) = nat fa"
  by (simp add: onChangePlayerCount_def onChangeFoodAmount_def orOne_def initialize_def
      newPlayers_def newFoodItems_def split: option.splits)

subsection \<open>The arena boundary\<close>

lemma clampPlayer_inBounds: "0 \<le> ms \<Longrightarrow> inBounds ms (clampPlayer ms p)"
  by (simp add: inBounds_def clampPlayer_def)

lemma clampPlayer_id: "inBounds ms p \<Longrightarrow> clampPlayer ms p = p"
  by (simp add: inBounds_def clampPlayer_def)

lemma newPlayer_inBounds: 
  assumes "0 \<le> ms" shows "inBounds ms (newPlayer ms pc i)"
proof -
  have r: "0 \<le> ms * (3 / 4)" "ms * (3/4) \<le> ms" using assms by simp_all
  have c: "\<bar>cos t * (ms * (3/4))\<bar> \<le> ms" for t
  proof -
    have "\<bar>cos t * (ms * (3/4))\<bar> = \<bar>cos t\<bar> * (ms * (3/4))" using r by (simp add: abs_mult)
    also have "\<dots> \<le> 1 * (ms * (3/4))" by (rule mult_right_mono) (use r in auto)
    finally show ?thesis using r by simp
  qed
  have s: "\<bar>sin t * (ms * (3/4))\<bar> \<le> ms" for t
  proof -
    have "\<bar>sin t * (ms * (3/4))\<bar> = \<bar>sin t\<bar> * (ms * (3/4))" using r by (simp add: abs_mult)
    also have "\<dots> \<le> 1 * (ms * (3/4))" by (rule mult_right_mono) (use r in auto)
    finally show ?thesis using r by simp
  qed
  show ?thesis
    using c [of "real i / real_of_int pc * pi * 2"] s [of "real i / real_of_int pc * pi * 2"]
    by (simp add: inBounds_def newPlayer_def Let_def Vector3_def abs_le_iff)
qed


lemma MAP_SIZE_nonneg: "0 \<le> MAP_SIZE"
  by (simp add: MAP_SIZE_def)

lemma initialize_inBounds: "0 \<le> ms \<Longrightarrow> list_all (inBounds ms) (players (initialize rnd pc fa ms))"
  by (simp add: initialize_def newPlayers_def list_all_iff newPlayer_inBounds)

lemma renderSimulation_inBounds: "worldInBounds a \<Longrightarrow> worldInBounds (renderSimulation rnd a)"
  by (auto simp add: worldInBounds_def renderSimulation_def initialize_inBounds MAP_SIZE_nonneg
      split: option.splits)

lemma frame_inBounds: "worldInBounds a \<Longrightarrow> worldInBounds (frame u a delta)"
  by (auto simp add: worldInBounds_def frame_def useFrame_def orKeep_def Let_def
      handleFoodDepleted_def list_all_iff clampPlayer_inBounds MAP_SIZE_nonneg
      split: option.splits)

lemma handle_inBounds: "worldInBounds a \<Longrightarrow> worldInBounds (handle u ev a)"
  by (cases ev)
     (simp_all add: frame_inBounds,
      simp_all add: worldInBounds_def onChangePlayerCount_def onChangeFoodAmount_def
        startSimulation_def handlePlayAgain_def timerTick_def)

lemma step_inBounds: "worldInBounds a \<Longrightarrow> worldInBounds (step u a er)"
  by (simp add: step_def renderSimulation_inBounds handle_inBounds)

lemma run_inBounds: "worldInBounds a \<Longrightarrow> worldInBounds (run u a evs)"
  unfolding run_def by (induction evs arbitrary: a) (simp_all add: step_inBounds)

text \<open>
  On coordinates that are numbers, every state the application reaches from its initial
  state, and every frame after it, has every player within the arena, whatever the
  update returns.
\<close>

lemma numbers_within_arena:
  "worldInBounds (run u initialApp evs) \<and> worldInBounds (frame u (run u initialApp evs) delta)"
proof -
  have "worldInBounds initialApp" by (simp add: worldInBounds_def initialApp_def)
  then have "worldInBounds (run u initialApp evs)" by (rule run_inBounds)
  then show ?thesis by (simp add: frame_inBounds)
qed

text \<open>
  The callback on coordinates that may be NaN is the callback on numbers wherever the
  update returns numbers.
\<close>

lemma clampPlayerJS_toJS: "clampPlayerJS ms (toJS p) = toJS (clampPlayer ms p)"
  by (simp add: clampPlayerJS_def toJS_def clampPlayer_def)

lemma toJS_score: "jscore (toJS p) = score p"
  by (simp add: toJS_def)

lemma useFrameJS_numbers:
  assumes "v (map toJS ps) fs d = (map toJS (fst (u ps fs d)), snd (u ps fs d))"
  shows "useFrameJS v ms r g (map toJS ps) fs d = toJSEffects (useFrame u ms r g ps fs d)"
  using assms
  by (simp add: useFrameJS_def useFrame_def toJSEffects_def Let_def clampPlayerJS_toJS
      toJS_score comp_def)


subsection \<open>Spawning\<close>

lemma newPlayers_nth: "i < nat pc \<Longrightarrow> newPlayers ms pc ! i = newPlayer ms pc i"
  by (simp add: newPlayers_def)

lemma on_circle: "(cos t * r)\<^sup>2 + (sin t * r)\<^sup>2 = (r::real)\<^sup>2"
proof -
  have "(cos t * r)\<^sup>2 + (sin t * r)\<^sup>2 = ((cos t)\<^sup>2 + (sin t)\<^sup>2) * r\<^sup>2"
    by (simp only: power_mult_distrib distrib_right)
  then show ?thesis by simp
qed

lemma newPlayer_first:
  "position (newPlayers MAP_SIZE 4 ! 0) = Vector3 6 (1 / 2) 0
   \<and> quaternion (newPlayers MAP_SIZE 4 ! 0) = \<lparr>quat_x = 0, quat_y = 0, quat_z = 0, quat_w = 1\<rparr>"
  by (simp add: newPlayers_nth newPlayer_def MAP_SIZE_def setFromAxisAngle_def Vector3_def)

text \<open>
  C6, as the claim states it, fails in its facing: the first of four players stands at
  \<open>(6, 0.5, 0)\<close> with the identity rotation, so it faces along \<open>+Z\<close>, a tangent of the
  circle, while the centre lies along \<open>-X\<close>; its local \<open>+X\<close> axis points away from the
  centre.
\<close>

theorem spawn_not_inward:
  "position (newPlayers MAP_SIZE 4 ! 0) = Vector3 6 (1 / 2) 0
   \<and> inward (newPlayers MAP_SIZE 4 ! 0) = Vector3 (- 1) 0 0
   \<and> facing (newPlayers MAP_SIZE 4 ! 0) = Vector3 0 0 1
   \<and> facing (newPlayers MAP_SIZE 4 ! 0) \<noteq> inward (newPlayers MAP_SIZE 4 ! 0)
   \<and> applyQuaternion (quaternion (newPlayers MAP_SIZE 4 ! 0)) (Vector3 1 0 0) = Vector3 1 0 0
   \<and> Vector3 1 0 0 \<noteq> inward (newPlayers MAP_SIZE 4 ! 0)"
  by (simp add: facing_def inward_def newPlayer_first towards_def hdist_same_z Let_def
      Vector3_def applyQuaternion_def)

text \<open>
  C6, amended: player \<open>i\<close> of \<open>playerCount\<close> is placed at angle \<open>i / playerCount\<close> of a
  full turn on the circle of radius \<open>0.75 * mapSize\<close> around the origin, at height 0.5,
  with score 0 and zero velocity; its orientation is the rotation about the vertical axis
  by minus that angle, which turns the local \<open>+X\<close> axis onto the outward radial direction
  and the local \<open>+Z\<close> axis onto the tangent.
\<close>

theorem spawn_circle:
  assumes "i < nat pc"
  shows "length (newPlayers ms pc) = nat pc
    \<and> pid (newPlayers ms pc ! i) = i
    \<and> position (newPlayers ms pc ! i)
        = Vector3 (cos (real i / real_of_int pc * pi * 2) * (ms * 0.75)) 0.5
            (sin (real i / real_of_int pc * pi * 2) * (ms * 0.75))
    \<and> (vec_x (position (newPlayers ms pc ! i)))\<^sup>2 + (vec_z (position (newPlayers ms pc ! i)))\<^sup>2
        = (ms * 0.75)\<^sup>2
    \<and> quaternion (newPlayers ms pc ! i)
        = setFromAxisAngle (Vector3 0 1 0) (- (real i / real_of_int pc * pi * 2))
    \<and> applyQuaternion (quaternion (newPlayers ms pc ! i)) (Vector3 1 0 0)
        = Vector3 (cos (real i / real_of_int pc * pi * 2)) 0 (sin (real i / real_of_int pc * pi * 2))
    \<and> applyQuaternion (quaternion (newPlayers ms pc ! i)) (Vector3 0 0 1)
        = Vector3 (- sin (real i / real_of_int pc * pi * 2)) 0 (cos (real i / real_of_int pc * pi * 2))
    \<and> score (newPlayers ms pc ! i) = 0
    \<and> velocity (newPlayers ms pc ! i) = Vector3 0 0 0"
proof -
  define p where "p = newPlayers ms pc ! i"
  define angle where "angle = real i / real_of_int pc * pi * 2"
  have p: "p = newPlayer ms pc i"
    using assms(1) by (simp add: p_def newPlayers_nth)
  have c: "1 - 2 * (sin (angle / 2))\<^sup>2 = cos angle"
    using cos_double_sin [of "angle / 2"] by simp
  have s: "2 * sin (angle / 2) * cos (angle / 2) = sin angle"
    using sin_double [of "angle / 2"] by simp
  have q: "quaternion p = setFromAxisAngle (Vector3 0 1 0) (- angle)"
    by (simp add: p newPlayer_def Let_def angle_def)
  have qx: "applyQuaternion (quaternion p) (Vector3 1 0 0) = Vector3 (cos angle) 0 (sin angle)"
    using c s by (simp add: q applyQuaternion_def setFromAxisAngle_def Vector3_def Let_def
        power2_eq_square algebra_simps)
  have qz: "applyQuaternion (quaternion p) (Vector3 0 0 1) = Vector3 (- sin angle) 0 (cos angle)"
    using c s by (simp add: q applyQuaternion_def setFromAxisAngle_def Vector3_def Let_def
        power2_eq_square algebra_simps)
  have pos: "position p = Vector3 (cos angle * (ms * 0.75)) 0.5 (sin angle * (ms * 0.75))"
    by (simp add: p newPlayer_def Let_def angle_def)
  have onc: "(vec_x (position p))\<^sup>2 + (vec_z (position p))\<^sup>2 = (ms * 0.75)\<^sup>2"
    unfolding pos by (simp only: Vector3_def vec3.simps on_circle)
  have rest: "pid p = i" "score p = 0" "velocity p = Vector3 0 0 0"
    by (simp_all add: p newPlayer_def Let_def)
  have len: "length (newPlayers ms pc) = nat pc"
    by (simp add: newPlayers_def)
  show ?thesis
    using len rest pos onc q qx qz unfolding p_def angle_def by blast
qed


theorem spawn_circle_witness:
  "(1::nat) < nat 4
   \<and> position (newPlayers MAP_SIZE 4 ! 1) = Vector3 0 (1 / 2) 6
   \<and> applyQuaternion (quaternion (newPlayers MAP_SIZE 4 ! 1)) (Vector3 1 0 0) = Vector3 0 0 1
   \<and> applyQuaternion (quaternion (newPlayers MAP_SIZE 4 ! 1)) (Vector3 0 0 1) = Vector3 (- 1) 0 0
   \<and> score (newPlayers MAP_SIZE 4 ! 1) = 0
   \<and> velocity (newPlayers MAP_SIZE 4 ! 1) = Vector3 0 0 0"
proof -
  have pre: "(1::nat) < nat 4"
    by simp
  have a: "real 1 / real_of_int 4 * pi * 2 = pi / 2"
    by simp
  note inst = spawn_circle [of 1 4 MAP_SIZE, OF pre, unfolded a]
  have "position (newPlayers MAP_SIZE 4 ! 1)
      = Vector3 (cos (pi / 2) * (MAP_SIZE * 0.75)) 0.5 (sin (pi / 2) * (MAP_SIZE * 0.75))"
    using inst by blast
  then have p: "position (newPlayers MAP_SIZE 4 ! 1) = Vector3 0 (1 / 2) 6"
    by (simp add: MAP_SIZE_def)
  have "applyQuaternion (quaternion (newPlayers MAP_SIZE 4 ! 1)) (Vector3 1 0 0)
      = Vector3 (cos (pi / 2)) 0 (sin (pi / 2))"
    using inst by blast
  then have x: "applyQuaternion (quaternion (newPlayers MAP_SIZE 4 ! 1)) (Vector3 1 0 0)
      = Vector3 0 0 1"
    by simp
  have "applyQuaternion (quaternion (newPlayers MAP_SIZE 4 ! 1)) (Vector3 0 0 1)
      = Vector3 (- sin (pi / 2)) 0 (cos (pi / 2))"
    using inst by blast
  then have z: "applyQuaternion (quaternion (newPlayers MAP_SIZE 4 ! 1)) (Vector3 0 0 1)
      = Vector3 (- 1) 0 0"
    by simp
  have r: "score (newPlayers MAP_SIZE 4 ! 1) = 0 \<and> velocity (newPlayers MAP_SIZE 4 ! 1) = Vector3 0 0 0"
    using inst by blast
  show ?thesis
    using pre p x z r by blast
qed

text \<open>
  C7: with random numbers in \<open>[0, 1)\<close> and a map size of at least the margin 0.5, every
  food item lies within \<open>[-mapSize + 0.5, mapSize - 0.5]\<close> on both horizontal axes, at
  height 0.5, has one of the three shapes, and is not consumed.
\<close>

theorem food_spawn:
  assumes "\<And>k. 0 \<le> rnd k \<and> rnd k < 1" and "1 / 2 \<le> ms" and "i < nat fa"
  shows "length (newFoodItems ms fa rnd) = nat fa
    \<and> fid (newFoodItems ms fa rnd ! i) = i
    \<and> - ms + 1 / 2 \<le> vec_x (fposition (newFoodItems ms fa rnd ! i))
    \<and> vec_x (fposition (newFoodItems ms fa rnd ! i)) \<le> ms - 1 / 2
    \<and> - ms + 1 / 2 \<le> vec_z (fposition (newFoodItems ms fa rnd ! i))
    \<and> vec_z (fposition (newFoodItems ms fa rnd ! i)) \<le> ms - 1 / 2
    \<and> vec_y (fposition (newFoodItems ms fa rnd ! i)) = 1 / 2
    \<and> ftype (newFoodItems ms fa rnd ! i) \<in> {Some Cube, Some Sphere, Some Triangle}
    \<and> \<not> consumed (newFoodItems ms fa rnd ! i)"
proof -
  have f: "newFoodItems ms fa rnd ! i = newFoodItem ms rnd i"
    using assms(3) by (simp add: newFoodItems_def)
  have w: "0 \<le> ms - 1 / 2 - (- ms + 1 / 2)"
    using assms(2) by simp
  have span: "- ms + 1 / 2 \<le> r * (ms - 1 / 2 - (- ms + 1 / 2)) + (- ms + 1 / 2)
      \<and> r * (ms - 1 / 2 - (- ms + 1 / 2)) + (- ms + 1 / 2) \<le> ms - 1 / 2"
    if "0 \<le> r \<and> r < 1" for r
  proof -
    have "0 \<le> r * (ms - 1 / 2 - (- ms + 1 / 2))"
      using that w by (simp only: mult_nonneg_nonneg)
    moreover have "r * (ms - 1 / 2 - (- ms + 1 / 2)) \<le> 1 * (ms - 1 / 2 - (- ms + 1 / 2))"
      using that w by (intro mult_right_mono) simp_all
    ultimately show ?thesis by simp
  qed
  have ty: "pick foodTypes r \<in> {Some Cube, Some Sphere, Some Triangle}" if "0 \<le> r \<and> r < 1" for r
  proof -
    have "0 \<le> r * 3" "r * 3 < 3" using that by simp_all
    then have "0 \<le> \<lfloor>r * 3\<rfloor>" "\<lfloor>r * 3\<rfloor> < 3" by (simp_all add: floor_less_iff)
    then have "\<lfloor>r * 3\<rfloor> = 0 \<or> \<lfloor>r * 3\<rfloor> = 1 \<or> \<lfloor>r * 3\<rfloor> = 2" by linarith
    then show ?thesis
      using that by (auto simp add: pick_def foodTypes_def)
  qed
  have len: "length (newFoodItems ms fa rnd) = nat fa"
    by (simp add: newFoodItems_def)
  have item: "fid (newFoodItem ms rnd i) = i
    \<and> - ms + 1 / 2 \<le> vec_x (fposition (newFoodItem ms rnd i))
    \<and> vec_x (fposition (newFoodItem ms rnd i)) \<le> ms - 1 / 2
    \<and> - ms + 1 / 2 \<le> vec_z (fposition (newFoodItem ms rnd i))
    \<and> vec_z (fposition (newFoodItem ms rnd i)) \<le> ms - 1 / 2
    \<and> vec_y (fposition (newFoodItem ms rnd i)) = 1 / 2
    \<and> ftype (newFoodItem ms rnd i) \<in> {Some Cube, Some Sphere, Some Triangle}
    \<and> \<not> consumed (newFoodItem ms rnd i)"
    using span [OF assms(1) [of "4 * i"]] span [OF assms(1) [of "4 * i + 1"]]
      ty [OF assms(1) [of "4 * i + 2"]]
    by (simp add: newFoodItem_def Let_def Vector3_def)
  show ?thesis
    using len item unfolding f by blast
qed

theorem food_spawn_witness:
  "(0 \<le> sampleRnd 0 \<and> sampleRnd 0 < 1) \<and> (1::real) / 2 \<le> MAP_SIZE \<and> (0::nat) < nat 1
   \<and> vec_x (fposition (newFoodItems MAP_SIZE 1 sampleRnd ! 0)) = 57 / 10
   \<and> vec_x (fposition (newFoodItems MAP_SIZE 1 sampleRnd ! 0)) \<le> MAP_SIZE - 1 / 2
   \<and> ftype (newFoodItems MAP_SIZE 1 sampleRnd ! 0) = Some Sphere
   \<and> \<not> consumed (newFoodItems MAP_SIZE 1 sampleRnd ! 0)"
proof -
  have r: "0 \<le> sampleRnd k \<and> sampleRnd k < 1" for k by (simp add: sampleRnd_def)
  have m: "(1::real) / 2 \<le> MAP_SIZE" by (simp add: MAP_SIZE_def)
  show ?thesis
    using food_spawn [of sampleRnd MAP_SIZE 0 1, OF r m] r [of 0] m
    by (simp add: newFoodItems_sample spawnedFood_def Vector3_def)
qed

subsection \<open>Consumption\<close>

lemma selectTarget_Some:
  "selectTarget p fs = Some i \<Longrightarrow> i < length fs \<and> \<not> consumed (fs ! i)"
proof (induction fs arbitrary: i)
  case Nil
  then show ?case by simp
next
  case (Cons f fs)
  show ?case
  proof (cases "selectTarget p fs")
    case None
    with Cons.prems show ?thesis by (simp split: if_splits)
  next
    case (Some j)
    with Cons.IH [of j] Cons.prems show ?thesis by (auto split: if_splits)
  qed
qed

lemma foodKept_refl: "foodKept fs fs"
  by (simp add: foodKept_def list_all2_same)

lemma foodKept_trans: "foodKept fs gs \<Longrightarrow> foodKept gs hs \<Longrightarrow> foodKept fs hs"
  by (auto simp add: foodKept_def list_all2_conv_all_nth)

lemma scoresKept_refl: "scoresKept ps ps"
  by (simp add: scoresKept_def list_all2_same)

lemma scoresKept_trans: "scoresKept ps qs \<Longrightarrow> scoresKept qs rs \<Longrightarrow> scoresKept ps rs"
  by (fastforce simp add: scoresKept_def list_all2_conv_all_nth)

lemma credited_refl: "credited ps fs ps fs"
  by (simp add: credited_def foodKept_refl scoresKept_refl)

lemma credited_trans:
  "credited ps fs qs gs \<Longrightarrow> credited qs gs rs hs \<Longrightarrow> credited ps fs rs hs"
  unfolding credited_def
  by (auto intro: foodKept_trans scoresKept_trans)

lemma consumedCount_mark:
  "i < length fs \<Longrightarrow> \<not> consumed (fs ! i) \<Longrightarrow>
   consumedCount (fs[i := (fs ! i)\<lparr>consumed := True\<rparr>]) = Suc (consumedCount fs)"
proof (induction fs arbitrary: i)
  case Nil
  then show ?case by simp
next
  case (Cons f fs)
  then show ?case
    by (cases i) (simp_all add: consumedCount_def)
qed

lemma foodKept_mark:
  "i < length fs \<Longrightarrow> foodKept fs (fs[i := (fs ! i)\<lparr>consumed := True\<rparr>])"
  by (simp add: foodKept_def list_all2_conv_all_nth nth_list_update)

lemma jumpArc_score: "score (jumpArc d p) = score p \<and> pid (jumpArc d p) = pid p"
  by (simp add: jumpArc_def Let_def)

lemma stepPlayer_credited:
  "credited [p] fs [fst (stepPlayer c d p fs)] (snd (stepPlayer c d p fs))"
proof (cases "selectTarget (position p) fs")
  case None
  then show ?thesis by (simp add: stepPlayer_def credited_refl)
next
  case (Some i)
  from selectTarget_Some [OF Some] have i: "i < length fs" "\<not> consumed (fs ! i)" by simp_all
  show ?thesis
    using consumedCount_mark [OF i] foodKept_mark [OF i(1)]
    by (simp add: stepPlayer_def Some Let_def credited_def scoresKept_def totalScore_def
        jumpArc_score foodKept_refl)
qed

lemma credited_Cons:
  "credited [p] fs [q] gs \<Longrightarrow> credited ps gs qs hs \<Longrightarrow> credited (p # ps) fs (q # qs) hs"
  unfolding credited_def
  by (auto simp add: scoresKept_def totalScore_def intro: foodKept_trans)

lemma stepPlayers_credited:
  "credited ps fs (fst (stepPlayers c d ps fs)) (snd (stepPlayers c d ps fs))"
proof (induction ps arbitrary: fs)
  case Nil
  show ?case by (simp add: credited_refl)
next
  case (Cons p ps)
  show ?case
    using credited_Cons [OF stepPlayer_credited [of p fs c d] Cons.IH [of "snd (stepPlayer c d p fs)"]]
    by (simp add: Let_def)
qed

lemma updateBuffetPlayers_credited:
  "credited ps fs (fst (updateBuffetPlayers c ps fs delta)) (snd (updateBuffetPlayers c ps fs delta))"
  by (cases delta) (simp_all add: updateBuffetPlayers_def credited_refl stepPlayers_credited)

lemma credited_clamp: "credited ps fs qs gs \<Longrightarrow> credited ps fs (map (clampPlayer ms) qs) gs"
  by (simp add: credited_def scoresKept_def totalScore_def list_all2_map2 clampPlayer_def comp_def)


lemma frame_credited:
  assumes "simulation a = Some s"
  shows "\<exists>s'. simulation (frame (updateBuffetPlayers c) a delta) = Some s'
           \<and> credited (players s) (foodItems s) (players s') (foodItems s')"
proof -
  have "credited (players s) (foodItems s)
          (map (clampPlayer MAP_SIZE) (fst (updateBuffetPlayers c (players s) (foodItems s) delta)))
          (snd (updateBuffetPlayers c (players s) (foodItems s) delta))"
    by (rule credited_clamp) (rule updateBuffetPlayers_credited)
  then show ?thesis
    using assms
    by (simp add: frame_def useFrame_def orKeep_def Let_def handleFoodDepleted_def credited_refl)
qed

lemma frames_credited:
  "simulation a = Some s \<Longrightarrow>
   \<exists>s'. simulation (frames (updateBuffetPlayers c) a ds) = Some s'
        \<and> credited (players s) (foodItems s) (players s') (foodItems s')"
proof (induction ds arbitrary: a s)
  case Nil
  then show ?case by (simp add: frames_def credited_refl)
next
  case (Cons d ds)
  from frame_credited [OF Cons.prems, of c d] obtain t where
    t: "simulation (frame (updateBuffetPlayers c) a d) = Some t"
      "credited (players s) (foodItems s) (players t) (foodItems t)"
    by blast
  from Cons.IH [OF t(1)] obtain s' where
    s': "simulation (frames (updateBuffetPlayers c) (frame (updateBuffetPlayers c) a d) ds) = Some s'"
      "credited (players t) (foodItems t) (players s') (foodItems s')"
    by blast
  have "frames (updateBuffetPlayers c) a (d # ds)
      = frames (updateBuffetPlayers c) (frame (updateBuffetPlayers c) a d) ds"
    by (simp add: frames_def)
  with s' credited_trans [OF t(2) s'(2)] show ?case by simp
qed

text \<open>
  C8: over any run of frames on a world, every food item that is consumed stays consumed
  (so its flag turns from false to true at most once), no player's score falls, and the
  scores gained in total equal the number of food items that turned consumed: each
  consumed item is credited once, to one player.
\<close>

theorem single_claim:
  "simulation a = Some s \<Longrightarrow>
   \<exists>s'. simulation (frames (updateBuffetPlayers c) a ds) = Some s'
        \<and> foodKept (foodItems s) (foodItems s')
        \<and> scoresKept (players s) (players s')
        \<and> totalScore (players s') + consumedCount (foodItems s)
            = totalScore (players s) + consumedCount (foodItems s')"
  using frames_credited [of a s c ds] by (simp add: credited_def)

lemma frames_raceStarted:
  "frames sampleUpdater raceStarted [Finite (1 / 60)] = raceOver"
  by (simp add: frames_def frame_raceStarted raceOver_eq)

theorem single_claim_witness:
  "simulation raceStarted
     = Some \<lparr>players = [spawnedPlayer], foodItems = [spawnedFood], deps = (1, 1, MAP_SIZE)\<rparr>
   \<and> simulation (frames sampleUpdater raceStarted [Finite (1 / 60)])
     = Some \<lparr>players = [fedPlayer], foodItems = [eatenFood], deps = (1, 1, MAP_SIZE)\<rparr>
   \<and> foodKept [spawnedFood] [eatenFood]
   \<and> scoresKept [spawnedPlayer] [fedPlayer]
   \<and> totalScore [fedPlayer] + consumedCount [spawnedFood]
       = totalScore [spawnedPlayer] + consumedCount [eatenFood]
   \<and> totalScore [fedPlayer] = 1 \<and> consumedCount [eatenFood] = 1"
proof -
  have s: "simulation raceStarted
     = Some \<lparr>players = [spawnedPlayer], foodItems = [spawnedFood], deps = (1, 1, MAP_SIZE)\<rparr>"
    by (simp add: raceStarted_eq)
  have e: "simulation (frames sampleUpdater raceStarted [Finite (1 / 60)])
     = Some \<lparr>players = [fedPlayer], foodItems = [eatenFood], deps = (1, 1, MAP_SIZE)\<rparr>"
    by (simp add: frames_raceStarted raceOver_eq)
  have v: "totalScore [fedPlayer] = 1 \<and> consumedCount [eatenFood] = 1"
    by (simp add: totalScore_def consumedCount_def fedPlayer_def eatenFood_def)
  show ?thesis
    using single_claim [OF s, of sampleTuning "[Finite (1 / 60)]"] s e v
    by (simp add: sampleUpdater_def [symmetric])
qed

subsection \<open>Degenerate ticks\<close>

lemma map_clamp_id: "list_all (inBounds ms) ps \<Longrightarrow> map (clampPlayer ms) ps = ps"
  by (induction ps) (simp_all add: clampPlayer_id)

text \<open>
  C4: in every state the application reaches, a frame whose elapsed time is zero, negative
  or not finite leaves the world as it is: the players with their positions, orientations,
  velocities and scores, and the food with its consumed flags.
\<close>

theorem degenerate_tick:
  assumes "degenerate delta"
  shows "simulation (frame (updateBuffetPlayers c) (run (updateBuffetPlayers c) initialApp evs) delta)
       = simulation (run (updateBuffetPlayers c) initialApp evs)"
proof -
  define a where "a = run (updateBuffetPlayers c) initialApp evs"
  have "worldInBounds initialApp"
    by (simp add: worldInBounds_def initialApp_def)
  then have b: "worldInBounds a"
    unfolding a_def by (rule run_inBounds)
  have u: "updateBuffetPlayers c ps fs delta = (ps, fs)" for ps fs
    using assms by (cases delta) (simp_all add: updateBuffetPlayers_def degenerate_def)
  have "simulation (frame (updateBuffetPlayers c) a delta) = simulation a"
  proof (cases "simulation a")
    case None
    then show ?thesis by (simp add: frame_def)
  next
    case (Some s)
    with b have "map (clampPlayer MAP_SIZE) (players s) = players s"
      by (simp add: worldInBounds_def map_clamp_id)
    with Some show ?thesis
      by (simp add: frame_def useFrame_def u orKeep_def Let_def handleFoodDepleted_def)
  qed
  then show ?thesis by (simp add: a_def)
qed

theorem degenerate_tick_witness:
  "degenerate (Finite 0) \<and> degenerate (Finite (- 1)) \<and> degenerate NonFinite
   \<and> simulation raceStarted
       = Some \<lparr>players = [spawnedPlayer], foodItems = [spawnedFood], deps = (1, 1, MAP_SIZE)\<rparr>
   \<and> simulation (frame sampleUpdater raceStarted (Finite 0)) = simulation raceStarted
   \<and> simulation (frame sampleUpdater raceStarted (Finite (- 1))) = simulation raceStarted
   \<and> simulation (frame sampleUpdater raceStarted NonFinite) = simulation raceStarted"
proof -
  have d: "degenerate (Finite 0)" "degenerate (Finite (- 1))" "degenerate NonFinite"
    by (simp_all add: degenerate_def)
  show ?thesis
    using d degenerate_tick [OF d(1), of sampleTuning startEvents]
      degenerate_tick [OF d(2), of sampleTuning startEvents]
      degenerate_tick [OF d(3), of sampleTuning startEvents]
    by (simp add: sampleUpdater_def [symmetric] raceStarted_def [symmetric] raceStarted_eq)
qed

subsection \<open>Determinism\<close>




text \<open>An update step that draws a random number gives two executions two worlds.\<close>

lemma driftStep_differs:
  "simulation (framesIn driftStep raceStarted [(Finite (1 / 60), (\<lambda>k. 0))])
    \<noteq> simulation (framesIn driftStep raceStarted [(Finite (1 / 60), (\<lambda>k. 1 / 2))])"
  by (simp add: framesIn_def frameIn_def frame_def useFrame_def driftStep_def raceStarted_eq
      orKeep_def clampPlayer_def spawnedPlayer_def spawnedFood_def Vector3_def MAP_SIZE_def
      handleFoodDepleted_def)



end
